theory Spec2Isabelle
  imports Main
begin

section \<open>Data model of the file browser (FileBrowser.tsx)\<close>

text \<open>
  A file record as the component reads it. JavaScript compares objects with
  \<open>===\<close> by identity, not by content, so every record carries the identity
  of its object in \<open>addr\<close>. The flags \<open>selectable\<close> and \<open>openable\<close> are
  optional: the code only ever tests them with \<open>!== false\<close>. The field \<open>id\<close> of the
  source is \<open>id'\<close> here.
\<close>

record FileData =
  addr :: nat
  id' :: string
  name :: string
  selectable :: "bool option"
  openable :: "bool option"

text \<open>The selection is an object used as a dictionary from file ids to booleans.\<close>

type_synonym Selection = "string \<rightharpoonup> bool"

datatype SelectionType = Single | Multiple | Range

datatype SelectionStatus = Ok | NeedsCleaning | NeedsResetting

datatype SortOrder = Asc | Desc

text \<open>
  Modelled from the spec: the module typedef is not among the sources. The code names
  \<open>SortProperty.Name\<close> and \<open>FolderView.Details\<close>; the other members follow the
  spec's "name / size / date" and its thumbnail views. The option keys are the five keys
  the constructor sets.
\<close>

datatype SortProperty = Name | Size | ModDate

datatype FolderView = Details | SmallThumbs | LargeThumbs

datatype ChonkyOption =
  ShowHidden | FoldersFirst | ShowExtensions | ConfirmDeletions | DisableSelection

type_synonym Options = "ChonkyOption \<rightharpoonup> bool"

record ClickEvent =
  ctrlKey :: bool
  shiftKey :: bool

text \<open>
  A click handler of the host returns \<open>boolean | undefined\<close>; that it was called, and
  with what, is recorded as an effect.
\<close>

type_synonym FileClickHandler = "FileData \<Rightarrow> int \<Rightarrow> ClickEvent \<Rightarrow> bool \<Rightarrow> bool option"

text \<open>
  The properties the host passes in. The callbacks \<open>onFileOpen\<close> and
  \<open>onSelectionChange\<close> return nothing, so the record only says whether the host
  supplied them (\<open>isFunction\<close>). The fields that share a name with a field of the
  state carry the prefix the constructor gives them (\<open>propView\<close>, \<open>propOptions\<close>,
  ...). The options object is compared by identity, so it comes with its address.
\<close>

record FileBrowserProps =
  files :: "FileData option list"
  propFolderChain :: "FileData option list option"
  doubleClickDelay :: "int option"
  onFileSingleClick :: "FileClickHandler option"
  onFileDoubleClick :: "FileClickHandler option"
  onFileOpen :: bool
  onSelectionChange :: bool
  disableSelection :: "bool option"
  propView :: "FolderView option"
  propOptions :: "(nat \<times> Options) option"
  propSortProperty :: "SortProperty option"
  propSortOrder :: "SortOrder option"

record FileBrowserState =
  rawFiles :: "FileData option list"
  folderChain :: "FileData option list option"
  sortedFiles :: "FileData option list"
  fileIndexMap :: "string \<rightharpoonup> int"
  previousSelectionIndex :: "int option"
  selection :: Selection
  view :: FolderView
  options :: Options
  sortProperty :: SortProperty
  sortOrder :: SortOrder

text \<open>What a handler does to the world outside the state, in the order it happens.\<close>

datatype Effect =
    SelectionChange Selection
  | FileOpen FileData
  | FileSingleClick FileData int ClickEvent bool
  | FileDoubleClick FileData int ClickEvent bool
  | PreventDefault

section \<open>Helpers of Util\<close>

text \<open>
  Reading a JavaScript array at an index: outside the array the result is
  \<open>undefined\<close>, which the callers treat like \<open>null\<close>.
\<close>

definition at :: "'a option list \<Rightarrow> int \<Rightarrow> 'a option" where
  "at xs i = (if 0 \<le> i \<and> i < int (length xs) then xs ! nat i else None)"

text \<open>
  Modelled from the spec: \<open>Util.clampIndex\<close> is not among the sources. The spec has
  the index clamped into the bounds of the list: an index at or beyond the length becomes
  the last valid index, and for an empty list the result is undefined.
\<close>

definition clampIndex :: "int \<Rightarrow> 'a list \<Rightarrow> int option" where
  "clampIndex index array =
     (if array = [] then None
      else Some (min (int (length array) - 1) (max 0 index)))"

text \<open>
  Modelled from the spec: \<open>Util.getNonNil\<close> is not among the sources. The callers
  read the last element of the folder chain with index \<open>-1\<close> (the current folder) and
  the second-to-last with \<open>-2\<close> (the parent folder): a negative index counts from the
  end, and the result is \<open>null\<close> for an absent array, a position outside it or a nil
  element.
\<close>

definition getNonNil :: "'a option list option \<Rightarrow> int \<Rightarrow> 'a option" where
  "getNonNil array index =
     (case array of
        None \<Rightarrow> None
      | Some xs \<Rightarrow> at xs (if index < 0 then int (length xs) + index else index))"

section \<open>The selection toggle\<close>

text \<open>
  The loop of the \<open>Range\<close> case:
  \<^verbatim>\<open>for (let i = indexA; i < indexB + 1; ++i) {
    const file = sortedFiles[i];
    if (!isNil(file) && file.selectable !== false) newSelection[file.id] = true;
}\<close>
\<close>

function range_loop ::
  "FileData option list \<Rightarrow> int \<Rightarrow> int \<Rightarrow> Selection \<Rightarrow> Selection" where
  "range_loop fs i indexB newSelection =
     (if i < indexB + 1 then
        range_loop fs (i + 1) indexB
          (case at fs i of
             None \<Rightarrow> newSelection
           | Some file \<Rightarrow>
               if selectable file \<noteq> Some False then newSelection(id' file \<mapsto> True)
               else newSelection)
      else newSelection)"
  by pat_completeness auto
termination
  by (relation "measure (\<lambda>(fs, i, indexB, newSelection). nat (indexB + 1 - i))") auto

declare range_loop.simps [simp del]

text \<open>
  The function handed to \<open>setState\<close> by \<open>handleSelectionToggle\<close>: from the previous
  state to the next one, with the call of \<open>onSelectionChange\<close> it makes. In the
  \<open>Range\<close> case the previous index is a number, since a range toggle without one has
  been turned into a \<open>Multiple\<close> one before.
\<close>

definition toggle_update ::
  "FileBrowserProps \<Rightarrow> FileData \<Rightarrow> int \<Rightarrow> SelectionType \<Rightarrow> FileBrowserState
     \<Rightarrow> FileBrowserState \<times> Effect list" where
  "toggle_update props file displayIndex type0 prevState =
     (let oldSelection = selection prevState;
          prevIndex = (case previousSelectionIndex prevState of
                         Some prevI \<Rightarrow> clampIndex prevI (sortedFiles prevState)
                       | None \<Rightarrow> None);
          type = (if type0 = Range \<and> prevIndex = None then Multiple else type0);
          selectionIndexToPersist =
            (if type = Multiple \<or> type = Range
             then (case prevIndex of Some p \<Rightarrow> p | None \<Rightarrow> displayIndex)
             else displayIndex);
          oldSelected = oldSelection (id' file);
          newSelection =
            (case type of
               Single \<Rightarrow>
                 if oldSelected = None \<and> selectable file \<noteq> Some False
                 then Map.empty(id' file \<mapsto> True) else Map.empty
             | Multiple \<Rightarrow>
                 if oldSelected = Some True then oldSelection(id' file := None)
                 else oldSelection(id' file \<mapsto> True)
             | Range \<Rightarrow>
                 (case prevIndex of
                    None \<Rightarrow> Map.empty
                  | Some indexA \<Rightarrow>
                      if indexA > displayIndex
                      then range_loop (sortedFiles prevState) displayIndex indexA Map.empty
                      else range_loop (sortedFiles prevState) indexA displayIndex Map.empty))
      in (prevState\<lparr>selection := newSelection,
                     previousSelectionIndex := Some selectionIndexToPersist\<rparr>,
          if onSelectionChange props then [SelectionChange newSelection] else []))"

definition handleSelectionToggle ::
  "FileBrowserProps \<Rightarrow> FileData \<Rightarrow> int \<Rightarrow> SelectionType \<Rightarrow> FileBrowserState
     \<Rightarrow> FileBrowserState \<times> Effect list" where
  "handleSelectionToggle props file displayIndex type st =
     (if disableSelection props = Some True then (st, [])
      else toggle_update props file displayIndex type st)"

text \<open>An id is selected when the selection maps it to \<open>true\<close>.\<close>

definition selected :: "Selection \<Rightarrow> string \<Rightarrow> bool" where
  "selected sel i = (sel i = Some True)"

section \<open>Comparisons of the shallow-equal package\<close>

text \<open>\<open>a === b\<close> on two nullable file objects: the same object, or both \<open>null\<close>.\<close>

definition strictEq :: "FileData option \<Rightarrow> FileData option \<Rightarrow> bool" where
  "strictEq a b =
     (case a of
        None \<Rightarrow> b = None
      | Some x \<Rightarrow> (case b of None \<Rightarrow> False | Some y \<Rightarrow> addr x = addr y))"

text \<open>
  \<open>shallowEqualArrays\<close>: two absent arrays are equal, an absent and a present one are
  not, and two arrays are equal when they have the same length and the same element
  (by \<open>===\<close>) at every position.
\<close>

definition shallowEqualArrays ::
  "FileData option list option \<Rightarrow> FileData option list option \<Rightarrow> bool" where
  "shallowEqualArrays arrA arrB =
     (case arrA of
        None \<Rightarrow> arrB = None
      | Some a \<Rightarrow>
          (case arrB of
             None \<Rightarrow> False
           | Some b \<Rightarrow> length a = length b \<and> list_all2 strictEq a b))"

text \<open>
  \<open>shallowEqualObjects\<close> on two option objects: the same keys with the same values.
  The values are booleans, so \<open>===\<close> on them is equality.
\<close>

definition shallowEqualObjects :: "Options \<Rightarrow> Options \<Rightarrow> bool" where
  "shallowEqualObjects objA objB =
     list_all (\<lambda>key. objA key = objB key)
       [ShowHidden, FoldersFirst, ShowExtensions, ConfirmDeletions, DisableSelection]"

section \<open>Receiving new properties\<close>

text \<open>
  The selection status \<open>UNSAFE_componentWillReceiveProps\<close> computes from the old and
  the next properties, in the order of its three tests.
\<close>

definition selectionStatus :: "FileBrowserProps \<Rightarrow> FileBrowserProps \<Rightarrow> SelectionStatus" where
  "selectionStatus old nextProps =
     (let s1 = (if \<not> shallowEqualArrays (Some (files nextProps)) (Some (files old))
                then NeedsCleaning else Ok);
          s2 = (if \<not> shallowEqualArrays (propFolderChain nextProps) (propFolderChain old)
                   \<and> (propFolderChain nextProps = None
                        \<or> \<not> strictEq (getNonNil (propFolderChain nextProps) (- 1))
                                       (getNonNil (propFolderChain old) (- 1)))
                then NeedsResetting else s1);
          s3 = (if disableSelection nextProps = Some True
                   \<and> disableSelection nextProps \<noteq> disableSelection old
                then NeedsResetting else s2)
      in s3)"

text \<open>
  The body of \<open>files.map\<close> in the cleaning step, over the files in order:
  \<^verbatim>\<open>if (!isObject(file)) return;
const wasSelected = oldSelection[file.id] === true;
const canBeSelected = file.selectable !== false;
if (wasSelected && canBeSelected) selection[file.id] = true;\<close>
\<close>

fun clean_files :: "FileData option list \<Rightarrow> Selection \<Rightarrow> Selection \<Rightarrow> Selection" where
  "clean_files [] oldSelection newSelection = newSelection"
| "clean_files (None # fs) oldSelection newSelection = clean_files fs oldSelection newSelection"
| "clean_files (Some file # fs) oldSelection newSelection =
     clean_files fs oldSelection
       (if oldSelection (id' file) = Some True \<and> selectable file \<noteq> Some False
        then newSelection(id' file \<mapsto> True) else newSelection)"

text \<open>
  The two functions handed to \<open>setState\<close> at the end of
  \<open>UNSAFE_componentWillReceiveProps\<close>. They run on the state the earlier
  \<open>setState\<close> calls of the same update have produced, so \<open>rawFiles\<close> is already
  the new file list. It is an array by its type, so \<open>isArray(files)\<close> holds.
\<close>

definition reset_update ::
  "FileBrowserProps \<Rightarrow> FileBrowserState \<Rightarrow> FileBrowserState \<times> Effect list" where
  "reset_update nextProps prevState =
     (prevState\<lparr>selection := Map.empty, previousSelectionIndex := None\<rparr>,
      if onSelectionChange nextProps then [SelectionChange Map.empty] else [])"

definition clean_update ::
  "FileBrowserProps \<Rightarrow> FileBrowserState \<Rightarrow> FileBrowserState \<times> Effect list" where
  "clean_update nextProps prevState =
     (let fs = rawFiles prevState;
          oldSelection = selection prevState;
          newIndex = (case previousSelectionIndex prevState of
                        Some prevIndex \<Rightarrow> clampIndex prevIndex fs
                      | None \<Rightarrow> None);
          newSelection = clean_files fs oldSelection Map.empty
      in (prevState\<lparr>selection := newSelection, previousSelectionIndex := newIndex\<rparr>,
          if onSelectionChange nextProps then [SelectionChange newSelection] else []))"

definition UNSAFE_componentWillReceiveProps ::
  "FileBrowserProps \<Rightarrow> FileBrowserProps \<Rightarrow> FileBrowserState
     \<Rightarrow> FileBrowserState \<times> Effect list" where
  "UNSAFE_componentWillReceiveProps old nextProps st =
     (let st1 = (if \<not> shallowEqualArrays (Some (files nextProps)) (Some (files old))
                 then st\<lparr>rawFiles := files nextProps\<rparr> else st);
          st2 = (if \<not> shallowEqualArrays (propFolderChain nextProps) (propFolderChain old)
                 then st1\<lparr>folderChain := propFolderChain nextProps\<rparr> else st1);
          st3 = (case propView nextProps of
                   None \<Rightarrow> st2
                 | Some v \<Rightarrow> if propView nextProps \<noteq> propView old then st2\<lparr>view := v\<rparr> else st2);
          st4 = (case propOptions nextProps of
                   None \<Rightarrow> st3
                 | Some (a, opts) \<Rightarrow>
                     if (case propOptions old of None \<Rightarrow> True | Some (b, _) \<Rightarrow> a \<noteq> b)
                     then st3\<lparr>options := options st3 ++ opts\<rparr> else st3);
          st5 = (case propSortProperty nextProps of
                   None \<Rightarrow> st4
                 | Some p \<Rightarrow>
                     if propSortProperty nextProps \<noteq> propSortProperty old
                     then st4\<lparr>sortProperty := p\<rparr> else st4);
          st6 = (case propSortOrder nextProps of
                   None \<Rightarrow> st5
                 | Some ord \<Rightarrow>
                     if propSortOrder nextProps \<noteq> propSortOrder old
                     then st5\<lparr>sortOrder := ord\<rparr> else st5)
      in case selectionStatus old nextProps of
           NeedsResetting \<Rightarrow> reset_update nextProps st6
         | NeedsCleaning \<Rightarrow> clean_update nextProps st6
         | Ok \<Rightarrow> (st6, []))"

section \<open>Re-sorting after an update\<close>

text \<open>
  \<open>FileUtil.sortFiles\<close> is not among the sources: it is a parameter of
  \<open>componentDidUpdate\<close>, which only decides whether to call it.
\<close>

type_synonym SortFiles =
  "FileData option list \<Rightarrow> Options \<Rightarrow> SortProperty \<Rightarrow> SortOrder
     \<Rightarrow> FileData option list \<times> (string \<rightharpoonup> int)"

definition needToResort :: "FileBrowserState \<Rightarrow> FileBrowserState \<Rightarrow> bool" where
  "needToResort prevState st =
     (\<not> shallowEqualArrays (Some (rawFiles st)) (Some (rawFiles prevState))
      \<or> \<not> shallowEqualObjects (options st) (options prevState)
      \<or> sortProperty st \<noteq> sortProperty prevState
      \<or> sortOrder st \<noteq> sortOrder prevState)"

definition componentDidUpdate ::
  "SortFiles \<Rightarrow> FileBrowserState \<Rightarrow> FileBrowserState \<Rightarrow> FileBrowserState" where
  "componentDidUpdate sortFiles prevState st =
     (if needToResort prevState st then
        (case sortFiles (rawFiles st) (options st) (sortProperty st) (sortOrder st) of
           (newSorted, newIndexMap) \<Rightarrow>
             st\<lparr>sortedFiles := newSorted, fileIndexMap := newIndexMap\<rparr>)
      else st)"

section \<open>Sorting by a column\<close>

definition activateSortProperty :: "SortProperty \<Rightarrow> FileBrowserState \<Rightarrow> FileBrowserState" where
  "activateSortProperty nm prevState =
     (if sortProperty prevState \<noteq> nm
      then prevState\<lparr>sortProperty := nm, sortOrder := Asc\<rparr>
      else prevState\<lparr>sortProperty := nm,
                       sortOrder := (if sortOrder prevState = Asc then Desc else Asc)\<rparr>)"

section \<open>Clicks and keys\<close>

definition handleFileSingleClick ::
  "FileBrowserProps \<Rightarrow> FileData \<Rightarrow> int \<Rightarrow> ClickEvent \<Rightarrow> bool \<Rightarrow> FileBrowserState
     \<Rightarrow> FileBrowserState \<times> Effect list" where
  "handleFileSingleClick props file displayIndex event keyboard st =
     (let called = (case onFileSingleClick props of
                      None \<Rightarrow> []
                    | Some handler \<Rightarrow> [FileSingleClick file displayIndex event keyboard]);
          preventDefault = (case onFileSingleClick props of
                              None \<Rightarrow> False
                            | Some handler \<Rightarrow>
                                handler file displayIndex event keyboard = Some True)
      in if preventDefault then (st, called)
         else
           (let t1 = Single;
                t2 = (if ctrlKey event then Multiple else t1);
                t3 = (if shiftKey event then Range else t2)
            in case handleSelectionToggle props file displayIndex t3 st of
                 (st', effects) \<Rightarrow> (st', called @ effects)))"

definition handleFileDoubleClick ::
  "FileBrowserProps \<Rightarrow> FileData \<Rightarrow> int \<Rightarrow> ClickEvent \<Rightarrow> bool \<Rightarrow> FileBrowserState
     \<Rightarrow> FileBrowserState \<times> Effect list" where
  "handleFileDoubleClick props file displayIndex event keyboard st =
     (let called = (case onFileDoubleClick props of
                      None \<Rightarrow> []
                    | Some handler \<Rightarrow> [FileDoubleClick file displayIndex event keyboard]);
          preventDefault = (case onFileDoubleClick props of
                              None \<Rightarrow> False
                            | Some handler \<Rightarrow>
                                handler file displayIndex event keyboard = Some True)
      in if preventDefault then (st, called)
         else if onFileOpen props \<and> openable file \<noteq> Some False
         then (st, called @ [FileOpen file])
         else (st, called))"

text \<open>
  A key event as \<open>handleKeyPress\<close> sees it: what \<open>Util.kbEventIsBackspace\<close>,
  \<open>kbEventIsSpace\<close> and \<open>kbEventIsEnter\<close> say about it. The focused element is
  read through its two data attributes.
\<close>

record KeyboardEvent =
  isBackspace :: bool
  isSpace :: bool
  isEnter :: bool

record Element =
  data_chonky_file_id :: "string option"
  data_chonky_instance_id :: "string option"

definition handleKeyPress ::
  "string \<Rightarrow> FileBrowserProps \<Rightarrow> KeyboardEvent \<Rightarrow> Element option \<Rightarrow> FileBrowserState
     \<Rightarrow> FileBrowserState \<times> Effect list" where
  "handleKeyPress thisInstanceId props event activeElem st =
     (if \<not> isBackspace event \<and> \<not> isSpace event \<and> \<not> isEnter event then (st, [])
      else if isBackspace event then
        (case getNonNil (propFolderChain props) (- 2) of
           None \<Rightarrow> (st, [PreventDefault])
         | Some parentFolder \<Rightarrow>
             if openable parentFolder = Some False then (st, [PreventDefault])
             else if onFileOpen props then (st, [PreventDefault, FileOpen parentFolder])
             else (st, [PreventDefault]))
      else
        (let fileId = (case activeElem of None \<Rightarrow> None | Some el \<Rightarrow> data_chonky_file_id el);
             instanceId = (case activeElem of
                             None \<Rightarrow> None
                           | Some el \<Rightarrow> data_chonky_instance_id el)
         in if instanceId \<noteq> Some thisInstanceId then (st, [PreventDefault])
            else
              (case fileId of
                 None \<Rightarrow> (st, [PreventDefault])
               | Some fid \<Rightarrow>
                   (case fileIndexMap st fid of
                      None \<Rightarrow> (st, [PreventDefault])
                    | Some displayIndex \<Rightarrow>
                        if displayIndex < 0 \<or> displayIndex \<ge> int (length (sortedFiles st))
                        then (st, [PreventDefault])
                        else
                          (case at (sortedFiles st) displayIndex of
                             None \<Rightarrow> (st, [PreventDefault])
                           | Some file \<Rightarrow>
                               (let clickEvent = \<lparr>ctrlKey = True, shiftKey = False\<rparr>
                                in if isSpace event then
                                     (case handleFileSingleClick props file displayIndex
                                             clickEvent True st of
                                        (st', effects) \<Rightarrow> (st', PreventDefault # effects))
                                   else if isEnter event then
                                     (case handleFileDoubleClick props file displayIndex
                                             clickEvent True st of
                                        (st', effects) \<Rightarrow> (st', PreventDefault # effects))
                                   else (st, [PreventDefault])))))))"

section \<open>Concrete inputs\<close>

text \<open>
  Files, properties and states for the examples below: a host that supplies every
  void callback and no click handler, and a state whose sorted view is the raw list.
\<close>

definition mkFile :: "nat \<Rightarrow> string \<Rightarrow> bool option \<Rightarrow> FileData" where
  "mkFile a i s = \<lparr>addr = a, id' = i, name = i, selectable = s, openable = None\<rparr>"

definition mkProps ::
  "FileData option list \<Rightarrow> FileData option list option \<Rightarrow> FileBrowserProps" where
  "mkProps fs chain =
     \<lparr>files = fs, propFolderChain = chain, doubleClickDelay = Some 300,
      onFileSingleClick = None, onFileDoubleClick = None, onFileOpen = True,
      onSelectionChange = True, disableSelection = None, propView = None,
      propOptions = None, propSortProperty = None, propSortOrder = None\<rparr>"

definition mkState ::
  "FileData option list \<Rightarrow> int option \<Rightarrow> Selection \<Rightarrow> FileBrowserState" where
  "mkState fs anchor sel =
     \<lparr>rawFiles = fs, folderChain = None, sortedFiles = fs, fileIndexMap = Map.empty,
      previousSelectionIndex = anchor, selection = sel, view = Details,
      options = Map.empty, sortProperty = Name, sortOrder = Asc\<rparr>"

definition fileA :: FileData where "fileA = mkFile 1 ''A'' None"
definition fileB :: FileData where "fileB = mkFile 2 ''B'' None"
definition fileC :: FileData where "fileC = mkFile 3 ''C'' None"
definition fileLocked :: FileData where "fileLocked = mkFile 4 ''L'' (Some False)"

definition folderRoot :: FileData where "folderRoot = mkFile 10 ''Root'' None"
definition folderDocs :: FileData where "folderDocs = mkFile 11 ''Docs'' None"
definition folderPics :: FileData where "folderPics = mkFile 12 ''Pics'' None"
definition folderVault :: FileData where
  "folderVault = \<lparr>addr = 13, id' = ''Vault'', name = ''Vault'', selectable = None,
                  openable = Some False\<rparr>"


text \<open>
  A stand-in for the sort engine in the examples: it reverses the list for a descending
  order and builds no index map.
\<close>

definition sortReversed :: SortFiles where
  "sortReversed fs opts prop ord = (if ord = Desc then rev fs else fs, Map.empty)"

text \<open>Key events, a focused element of an instance, a host that watches single and double
  clicks without preventing the default.\<close>

definition spaceKey :: KeyboardEvent where
  "spaceKey = \<lparr>isBackspace = False, isSpace = True, isEnter = False\<rparr>"

definition enterKey :: KeyboardEvent where
  "enterKey = \<lparr>isBackspace = False, isSpace = False, isEnter = True\<rparr>"

definition backspaceKey :: KeyboardEvent where
  "backspaceKey = \<lparr>isBackspace = True, isSpace = False, isEnter = False\<rparr>"

definition focusOn :: "string \<Rightarrow> string \<Rightarrow> Element option" where
  "focusOn inst fid = Some \<lparr>data_chonky_file_id = Some fid, data_chonky_instance_id = Some inst\<rparr>"

definition watchingProps :: FileBrowserProps where
  "watchingProps =
     (mkProps [Some fileA, Some fileB] None)
       \<lparr>onFileSingleClick := Some (\<lambda>file displayIndex event keyboard. None),
        onFileDoubleClick := Some (\<lambda>file displayIndex event keyboard. None)\<rparr>"

definition indexedState :: FileBrowserState where
  "indexedState =
     (mkState [Some fileA, Some fileB] None [''A'' \<mapsto> True])
       \<lparr>fileIndexMap := [''A'' \<mapsto> 0, ''B'' \<mapsto> 1]\<rparr>"

lemmas example_defs =
  mkFile_def mkProps_def mkState_def fileA_def fileB_def fileC_def fileLocked_def

lemmas folder_defs = folderRoot_def folderDocs_def folderPics_def folderVault_def

lemmas key_defs =
  spaceKey_def enterKey_def backspaceKey_def focusOn_def watchingProps_def indexedState_def

section \<open>Properties of the selection toggle\<close>

text \<open>What the loop of the \<open>Range\<close> case leaves under an id.\<close>

lemma range_loop_lookup:
  "range_loop fs i indexB sel k =
     (if \<exists>j f. i \<le> j \<and> j \<le> indexB \<and> at fs j = Some f
               \<and> selectable f \<noteq> Some False \<and> id' f = k
      then Some True else sel k)"
proof (induction fs i indexB sel rule: range_loop.induct)
  case (1 fs i indexB sel)
  define P where
    "P j \<longleftrightarrow> (\<exists>f. at fs j = Some f \<and> selectable f \<noteq> Some False \<and> id' f = k)" for j
  have goal_P:
    "(\<exists>j f. a \<le> j \<and> j \<le> indexB \<and> at fs j = Some f
             \<and> selectable f \<noteq> Some False \<and> id' f = k)
       \<longleftrightarrow> (\<exists>j. a \<le> j \<and> j \<le> indexB \<and> P j)" for a
    unfolding P_def by blast
  show ?case
  proof (cases "i < indexB + 1")
    case False
    then have none: "\<not> (\<exists>j. i \<le> j \<and> j \<le> indexB \<and> P j)" by auto
    have "range_loop fs i indexB sel k = sel k"
      using False by (subst range_loop.simps) simp
    then show ?thesis
      unfolding goal_P using none by auto
  next
    case True
    let ?sel' = "(case at fs i of
                    None \<Rightarrow> sel
                  | Some file \<Rightarrow>
                      if selectable file \<noteq> Some False then sel(id' file \<mapsto> True) else sel)"
    have step: "range_loop fs i indexB sel k = range_loop fs (i + 1) indexB ?sel' k"
      using True by (subst range_loop.simps) simp
    have here: "?sel' k = (if P i then Some True else sel k)"
      unfolding P_def by (auto split: option.splits)
    have "(\<exists>j. i \<le> j \<and> j \<le> indexB \<and> P j)
            \<longleftrightarrow> P i \<or> (\<exists>j. i + 1 \<le> j \<and> j \<le> indexB \<and> P j)"
    proof
      assume "\<exists>j. i \<le> j \<and> j \<le> indexB \<and> P j"
      then obtain j where j: "i \<le> j" "j \<le> indexB" "P j" by blast
      show "P i \<or> (\<exists>j. i + 1 \<le> j \<and> j \<le> indexB \<and> P j)"
      proof (cases "j = i")
        case True
        with j show ?thesis by simp
      next
        case False
        with j have "i + 1 \<le> j" by simp
        with j show ?thesis by blast
      qed
    next
      assume "P i \<or> (\<exists>j. i + 1 \<le> j \<and> j \<le> indexB \<and> P j)"
      then show "\<exists>j. i \<le> j \<and> j \<le> indexB \<and> P j"
      proof
        assume "P i"
        with True show ?thesis by (intro exI[of _ i]) simp
      next
        assume "\<exists>j. i + 1 \<le> j \<and> j \<le> indexB \<and> P j"
        then obtain j where "i + 1 \<le> j" "j \<le> indexB" "P j" by blast
        then show ?thesis by (intro exI[of _ j]) simp
      qed
    qed
    then show ?thesis
      unfolding step "1.IH"[OF True] goal_P here by auto
  qed
qed

text \<open>
  The \<open>Single\<close> and the \<open>Range\<close> case test \<open>file.selectable !== false\<close> before
  they select: neither ever selects the id of a file they have seen as not selectable,
  unless a selectable file of the range shares the id.
\<close>

lemma single_toggle_skips_unselectable:
  "disableSelection props \<noteq> Some True \<Longrightarrow> selectable file = Some False \<Longrightarrow>
   selection (fst (handleSelectionToggle props file displayIndex Single st)) = Map.empty"
  by (simp add: handleSelectionToggle_def toggle_update_def Let_def)

lemma range_loop_only_selectable:
  "range_loop fs i indexB Map.empty k = Some True \<Longrightarrow>
   \<exists>j f. at fs j = Some f \<and> selectable f \<noteq> Some False \<and> id' f = k"
  unfolding range_loop_lookup by (auto split: if_splits)

text \<open>
  C1 (non-selectable exclusion). The \<open>Multiple\<close> case has no such test. The sorted
  view holds the one file L with \<open>selectable: false\<close>, nothing is selected, and a
  \<open>Multiple\<close> toggle on L puts its id into the selection.
\<close>

theorem multiple_toggle_selects_unselectable:
  "selectable fileLocked = Some False \<and>
   selected (selection (fst (handleSelectionToggle (mkProps [Some fileLocked] None)
                               fileLocked 0 Multiple
                               (mkState [Some fileLocked] None Map.empty))))
            (id' fileLocked)"
  by (simp add: handleSelectionToggle_def toggle_update_def Let_def selected_def example_defs)

text \<open>
  C2 (single-select stickiness), as the spec has it: a \<open>Single\<close> toggle on a file
  that is already selected leaves the membership of the selection unchanged. It does not:
  with A selected, a \<open>Single\<close> toggle on A leaves A unselected.
\<close>

theorem single_toggle_sticky_counterexample:
  "selected (selection (mkState [Some fileA] None [''A'' \<mapsto> True])) (id' fileA) \<and>
   \<not> selected (selection (fst (handleSelectionToggle (mkProps [Some fileA] None)
                                 fileA 0 Single
                                 (mkState [Some fileA] None [''A'' \<mapsto> True]))))
              (id' fileA)"
  by (simp add: handleSelectionToggle_def toggle_update_def Let_def selected_def example_defs)

text \<open>
  C2, amended: when selection is not disabled and the selection has an entry for the
  target's id, a \<open>Single\<close> toggle empties the selection (the target and every other
  file are deselected), and the anchor becomes the target's index.
\<close>

theorem single_toggle_on_selected_clears:
  assumes "disableSelection props \<noteq> Some True"
      and "selection st (id' file) \<noteq> None"
  shows "selection (fst (handleSelectionToggle props file displayIndex Single st)) = Map.empty
         \<and> previousSelectionIndex (fst (handleSelectionToggle props file displayIndex Single st))
             = Some displayIndex"
  using assms by (simp add: handleSelectionToggle_def toggle_update_def Let_def)

theorem single_toggle_on_selected_clears_witness:
  "disableSelection (mkProps [Some fileA, Some fileB] None) \<noteq> Some True
   \<and> selection (mkState [Some fileA, Some fileB] (Some 0) [''A'' \<mapsto> True, ''B'' \<mapsto> True])
        (id' fileA) \<noteq> None
   \<and> selection (fst (handleSelectionToggle (mkProps [Some fileA, Some fileB] None) fileA 1 Single
        (mkState [Some fileA, Some fileB] (Some 0) [''A'' \<mapsto> True, ''B'' \<mapsto> True])))
       = Map.empty
   \<and> previousSelectionIndex
        (fst (handleSelectionToggle (mkProps [Some fileA, Some fileB] None) fileA 1 Single
          (mkState [Some fileA, Some fileB] (Some 0) [''A'' \<mapsto> True, ''B'' \<mapsto> True])))
       = Some 1"
proof -
  have h1: "disableSelection (mkProps [Some fileA, Some fileB] None) \<noteq> Some True"
    by (simp add: example_defs)
  have h2: "selection (mkState [Some fileA, Some fileB] (Some 0)
                         [''A'' \<mapsto> True, ''B'' \<mapsto> True]) (id' fileA) \<noteq> None"
    by (simp add: example_defs)
  show ?thesis
    using single_toggle_on_selected_clears [OF h1 h2, of 1] h1 h2 by simp
qed

text \<open>
  C3 (range selection), as the spec has it: a \<open>Range\<close> toggle adds the range to the
  previous selection, and a selected id outside the range stays selected. It does not:
  with C selected, the anchor at index 0 and the target B at index 1 of [A, B, C], the
  file C at index 2 is outside the range and is no longer selected afterwards.
\<close>
theorem range_toggle_additive_counterexample:
  "selected (selection (mkState [Some fileA, Some fileB, Some fileC] (Some 0) [''C'' \<mapsto> True]))
            (id' fileC)
   \<and> \<not> selected (selection (fst (handleSelectionToggle
                                  (mkProps [Some fileA, Some fileB, Some fileC] None)
                                  fileB 1 Range
                                  (mkState [Some fileA, Some fileB, Some fileC] (Some 0)
                                     [''C'' \<mapsto> True]))))
                (id' fileC)"
  by (simp add: handleSelectionToggle_def toggle_update_def Let_def selected_def example_defs
        clampIndex_def range_loop.simps at_def)

text \<open>
  C3, amended: when selection is not disabled and the anchor is a valid index of the
  sorted view, a \<open>Range\<close> toggle makes the selection exactly the ids of the non-null,
  selectable files at the indices from \<open>min(anchor, targetIndex)\<close> to
  \<open>max(anchor, targetIndex)\<close> inclusive (the previous selection is replaced, not
  kept), and the anchor stays what it was.
\<close>
theorem range_toggle_selects_range:
  assumes "disableSelection props \<noteq> Some True"
      and "previousSelectionIndex st = Some anchor"
      and "0 \<le> anchor" and "anchor < int (length (sortedFiles st))"
  shows "selection (fst (handleSelectionToggle props file displayIndex Range st)) =
           (\<lambda>k. if \<exists>j f. min anchor displayIndex \<le> j \<and> j \<le> max anchor displayIndex
                          \<and> at (sortedFiles st) j = Some f
                          \<and> selectable f \<noteq> Some False \<and> id' f = k
                then Some True else None)
         \<and> previousSelectionIndex (fst (handleSelectionToggle props file displayIndex Range st))
             = Some anchor"
proof -
  have ne: "sortedFiles st \<noteq> []" using assms by auto
  have cl: "clampIndex anchor (sortedFiles st) = Some anchor"
    using assms ne by (simp add: clampIndex_def)
  show ?thesis
    using assms(1,2) cl
    by (auto simp: handleSelectionToggle_def toggle_update_def Let_def range_loop_lookup
          min_def max_def)
qed

theorem range_toggle_selects_range_witness:
  "disableSelection (mkProps [Some fileA, Some fileB, Some fileC] None) \<noteq> Some True
   \<and> previousSelectionIndex (mkState [Some fileA, Some fileB, Some fileC] (Some 0) [''C'' \<mapsto> True]) = Some 0
   \<and> (0::int) \<le> 0
   \<and> (0::int) < int (length (sortedFiles (mkState [Some fileA, Some fileB, Some fileC] (Some 0) [''C'' \<mapsto> True])))
   \<and> selected (selection (fst (handleSelectionToggle (mkProps [Some fileA, Some fileB, Some fileC] None)
          fileB 1 Range (mkState [Some fileA, Some fileB, Some fileC] (Some 0) [''C'' \<mapsto> True])))) ''B''
   \<and> previousSelectionIndex (fst (handleSelectionToggle (mkProps [Some fileA, Some fileB, Some fileC] None)
          fileB 1 Range (mkState [Some fileA, Some fileB, Some fileC] (Some 0) [''C'' \<mapsto> True]))) = Some 0"
proof -
  let ?p = "mkProps [Some fileA, Some fileB, Some fileC] None"
  let ?st = "mkState [Some fileA, Some fileB, Some fileC] (Some 0) [''C'' \<mapsto> True]"
  have h1: "disableSelection ?p \<noteq> Some True" by (simp add: example_defs)
  have h2: "previousSelectionIndex ?st = Some 0" by (simp add: example_defs)
  have h3: "(0::int) \<le> 0" by simp
  have h4: "(0::int) < int (length (sortedFiles ?st))" by (simp add: example_defs)
  have ex: "\<exists>j f. min 0 1 \<le> j \<and> j \<le> max 0 1 \<and> at (sortedFiles ?st) j = Some f
                 \<and> selectable f \<noteq> Some False \<and> id' f = ''B''"
    by (rule exI[of _ 1], rule exI[of _ fileB]) (simp add: example_defs at_def)
  show ?thesis
    using range_toggle_selects_range [OF h1 h2 h3 h4, of fileB 1] h1 h2 h3 h4 ex
    by (simp add: selected_def)
qed

text \<open>
  C4 (multiple toggle), as the spec has it: after a \<open>Multiple\<close> toggle the anchor is
  the target's index. It is not when there was an anchor before: with the anchor at
  index 0 of [A, B], a \<open>Multiple\<close> toggle on B at index 1 leaves the anchor at 0.
\<close>
theorem multiple_toggle_anchor_counterexample:
  "previousSelectionIndex (fst (handleSelectionToggle (mkProps [Some fileA, Some fileB] None)
                                  fileB 1 Multiple
                                  (mkState [Some fileA, Some fileB] (Some 0) [''A'' \<mapsto> True])))
     \<noteq> Some 1"
  by (simp add: handleSelectionToggle_def toggle_update_def Let_def example_defs clampIndex_def)

text \<open>
  C4, amended: when selection is not disabled and the target has
  \<open>selectable !== false\<close>, a \<open>Multiple\<close> toggle flips the membership of the
  target's id and leaves every other id as it was; the anchor is the previous anchor,
  clamped into the sorted view, when there is one, and the target's index otherwise.
\<close>
theorem multiple_toggle_flips:
  assumes "disableSelection props \<noteq> Some True" and "selectable file \<noteq> Some False"
  shows "(selected (selection (fst (handleSelectionToggle props file displayIndex Multiple st)))
                   (id' file)
            \<longleftrightarrow> \<not> selected (selection st) (id' file))
         \<and> (\<forall>k. k \<noteq> id' file \<longrightarrow>
               selection (fst (handleSelectionToggle props file displayIndex Multiple st)) k
                 = selection st k)
         \<and> previousSelectionIndex (fst (handleSelectionToggle props file displayIndex Multiple st))
             = Some (case previousSelectionIndex st of
                       None \<Rightarrow> displayIndex
                     | Some prevI \<Rightarrow>
                         (case clampIndex prevI (sortedFiles st) of
                            None \<Rightarrow> displayIndex
                          | Some prevIndex \<Rightarrow> prevIndex))"
  using assms
  by (auto simp: handleSelectionToggle_def toggle_update_def Let_def selected_def
        split: option.splits)

theorem multiple_toggle_flips_witness:
  "disableSelection (mkProps [Some fileA, Some fileB] None) \<noteq> Some True
   \<and> selectable fileB \<noteq> Some False
   \<and> \<not> selected (selection (mkState [Some fileA, Some fileB] (Some 0) [''A'' \<mapsto> True])) (id' fileB)
   \<and> selected (selection (fst (handleSelectionToggle (mkProps [Some fileA, Some fileB] None)
          fileB 1 Multiple (mkState [Some fileA, Some fileB] (Some 0) [''A'' \<mapsto> True])))) (id' fileB)
   \<and> selection (fst (handleSelectionToggle (mkProps [Some fileA, Some fileB] None)
          fileB 1 Multiple (mkState [Some fileA, Some fileB] (Some 0) [''A'' \<mapsto> True]))) ''A'' = Some True
   \<and> previousSelectionIndex (fst (handleSelectionToggle (mkProps [Some fileA, Some fileB] None)
          fileB 1 Multiple (mkState [Some fileA, Some fileB] (Some 0) [''A'' \<mapsto> True]))) = Some 0"
proof -
  let ?p = "mkProps [Some fileA, Some fileB] None"
  let ?st = "mkState [Some fileA, Some fileB] (Some 0) [''A'' \<mapsto> True]"
  have h1: "disableSelection ?p \<noteq> Some True" by (simp add: example_defs)
  have h2: "selectable fileB \<noteq> Some False" by (simp add: example_defs)
  have cl: "clampIndex 0 (sortedFiles ?st) = Some 0" by (simp add: example_defs clampIndex_def)
  have sel: "\<not> selected (selection ?st) (id' fileB)" "selection ?st ''A'' = Some True"
     "previousSelectionIndex ?st = Some 0" "''A'' \<noteq> id' fileB"
    by (simp_all add: example_defs selected_def)
  show ?thesis
    using multiple_toggle_flips [OF h1 h2, of 1 ?st] h1 h2 cl sel
    by simp
qed

section \<open>Properties of receiving new properties\<close>

text \<open>What the cleaning loop leaves under an id.\<close>

lemma clean_files_lookup:
  "clean_files fs old sel k =
     (if old k = Some True \<and> (\<exists>f. Some f \<in> set fs \<and> id' f = k \<and> selectable f \<noteq> Some False)
      then Some True else sel k)"
  by (induction fs old sel rule: clean_files.induct) auto

lemma clampIndex_bounds:
  "clampIndex p xs = Some a \<Longrightarrow> 0 \<le> a \<and> a < int (length xs)"
  by (auto simp: clampIndex_def split: if_splits)

lemma clampIndex_empty: "clampIndex p [] = None"
  by (simp add: clampIndex_def)

lemma clampIndex_beyond:
  "xs \<noteq> [] \<Longrightarrow> int (length xs) \<le> p \<Longrightarrow> clampIndex p xs = Some (int (length xs) - 1)"
  by (simp add: clampIndex_def)

lemma clampIndex_inside:
  "0 \<le> p \<Longrightarrow> p < int (length xs) \<Longrightarrow> clampIndex p xs = Some p"
  by (auto simp: clampIndex_def)

lemma rawFiles_after_cleaning:
  assumes "selectionStatus old nextProps = NeedsCleaning"
  shows "\<not> shallowEqualArrays (Some (files nextProps)) (Some (files old))"
  using assms by (auto simp: selectionStatus_def Let_def split: if_splits)

text \<open>
  When the status is \<open>NeedsCleaning\<close>: the file lists are not shallow-equal, the
  folder chain is shallow-equal to the old one or ends in the same folder, and selection
  has not just been disabled.
\<close>

lemma needs_cleaning_iff:
  "selectionStatus old nextProps = NeedsCleaning \<longleftrightarrow>
     \<not> shallowEqualArrays (Some (files nextProps)) (Some (files old))
     \<and> (shallowEqualArrays (propFolderChain nextProps) (propFolderChain old)
          \<or> (propFolderChain nextProps \<noteq> None
               \<and> strictEq (getNonNil (propFolderChain nextProps) (- 1))
                           (getNonNil (propFolderChain old) (- 1))))
     \<and> \<not> (disableSelection nextProps = Some True
            \<and> disableSelection nextProps \<noteq> disableSelection old)"
  by (auto simp: selectionStatus_def Let_def)

text \<open>
  The callback is called although nothing was pruned: the list grows from [A, B] to
  [A, B, C] with A selected, and the host is told of the selection \<open>{A: true}\<close> again.
\<close>

lemma cleaning_notifies_unchanged_selection:
  "UNSAFE_componentWillReceiveProps
     (mkProps [Some fileA, Some fileB] None)
     (mkProps [Some fileA, Some fileB, Some fileC] None)
     (mkState [Some fileA, Some fileB] (Some 0) [''A'' \<mapsto> True])
   = ((mkState [Some fileA, Some fileB] (Some 0) [''A'' \<mapsto> True])
        \<lparr>rawFiles := [Some fileA, Some fileB, Some fileC]\<rparr>,
      [SelectionChange [''A'' \<mapsto> True]])"
proof -
  have status: "selectionStatus (mkProps [Some fileA, Some fileB] None)
                  (mkProps [Some fileA, Some fileB, Some fileC] None) = NeedsCleaning"
    by (simp add: selectionStatus_def shallowEqualArrays_def example_defs)
  show ?thesis
    unfolding UNSAFE_componentWillReceiveProps_def status
    by (simp add: shallowEqualArrays_def clean_update_def clampIndex_def Let_def example_defs)
qed

text \<open>
  C5 (cleaning on content change). When the selection status of a property update is
  \<open>NeedsCleaning\<close>, the new selection is the previous selection cut down to the ids
  of the files of the new list with \<open>selectable !== false\<close>; the previous anchor is
  clamped into the new list, so it is a valid index of it, and it is undefined when the
  list is empty (or when there was none); and when the host supplies the callback it is
  called once with the new selection, whether or not that differs from the old one.
\<close>

theorem cleaning_prunes_selection:
  assumes "selectionStatus old nextProps = NeedsCleaning"
      and "UNSAFE_componentWillReceiveProps old nextProps st = (st', effects)"
  shows "selection st' =
           (\<lambda>k. if selected (selection st) k
                    \<and> (\<exists>f. Some f \<in> set (files nextProps) \<and> id' f = k
                            \<and> selectable f \<noteq> Some False)
                 then Some True else None)
         \<and> previousSelectionIndex st' =
             (case previousSelectionIndex st of
                None \<Rightarrow> None
              | Some prevIndex \<Rightarrow> clampIndex prevIndex (files nextProps))
         \<and> (\<forall>a. previousSelectionIndex st' = Some a \<longrightarrow> 0 \<le> a \<and> a < int (length (files nextProps)))
         \<and> (files nextProps = [] \<longrightarrow> previousSelectionIndex st' = None)
         \<and> (onSelectionChange nextProps \<longrightarrow> effects = [SelectionChange (selection st')])"
proof -
  have changed: "\<not> shallowEqualArrays (Some (files nextProps)) (Some (files old))"
    using assms(1) by (rule rawFiles_after_cleaning)
  obtain mid where mid: "UNSAFE_componentWillReceiveProps old nextProps st = clean_update nextProps mid"
    and raw: "rawFiles mid = files nextProps"
    and sel: "selection mid = selection st"
    and idx: "previousSelectionIndex mid = previousSelectionIndex st"
    using assms(1) changed
    by (auto simp: UNSAFE_componentWillReceiveProps_def Let_def split: option.splits prod.splits)
  have st': "st' = fst (clean_update nextProps mid)" and eff: "effects = snd (clean_update nextProps mid)"
    using assms(2) mid by simp_all
  have s: "selection st' = clean_files (files nextProps) (selection st) Map.empty"
    and i: "previousSelectionIndex st' =
             (case previousSelectionIndex st of
                None \<Rightarrow> None
              | Some prevIndex \<Rightarrow> clampIndex prevIndex (files nextProps))"
    and e: "onSelectionChange nextProps \<Longrightarrow> effects = [SelectionChange (selection st')]"
    unfolding st' eff using raw sel idx
    by (auto simp: clean_update_def Let_def split: option.splits)
  have b: "\<forall>a. previousSelectionIndex st' = Some a \<longrightarrow> 0 \<le> a \<and> a < int (length (files nextProps))"
    unfolding i by (auto split: option.splits dest: clampIndex_bounds)
  have n: "files nextProps = [] \<longrightarrow> previousSelectionIndex st' = None"
    unfolding i by (auto split: option.splits simp: clampIndex_empty)
  have s': "selection st' =
           (\<lambda>k. if selected (selection st) k
                    \<and> (\<exists>f. Some f \<in> set (files nextProps) \<and> id' f = k
                            \<and> selectable f \<noteq> Some False)
                 then Some True else None)"
    unfolding s by (rule ext) (simp add: clean_files_lookup selected_def)
  show ?thesis using s' i b n e by blast
qed

theorem cleaning_prunes_selection_witness:
  "selectionStatus (mkProps [Some fileA, Some fileB, Some fileC] None)
                   (mkProps [Some fileA, Some fileC] None) = NeedsCleaning
   \<and> selection (fst (UNSAFE_componentWillReceiveProps
                       (mkProps [Some fileA, Some fileB, Some fileC] None)
                       (mkProps [Some fileA, Some fileC] None)
                       (mkState [Some fileA, Some fileB, Some fileC] (Some 2)
                          [''A'' \<mapsto> True, ''B'' \<mapsto> True]))) ''A'' = Some True
   \<and> selection (fst (UNSAFE_componentWillReceiveProps
                       (mkProps [Some fileA, Some fileB, Some fileC] None)
                       (mkProps [Some fileA, Some fileC] None)
                       (mkState [Some fileA, Some fileB, Some fileC] (Some 2)
                          [''A'' \<mapsto> True, ''B'' \<mapsto> True]))) ''B'' = None
   \<and> previousSelectionIndex (fst (UNSAFE_componentWillReceiveProps
                       (mkProps [Some fileA, Some fileB, Some fileC] None)
                       (mkProps [Some fileA, Some fileC] None)
                       (mkState [Some fileA, Some fileB, Some fileC] (Some 2)
                          [''A'' \<mapsto> True, ''B'' \<mapsto> True]))) = Some 1
   \<and> length (snd (UNSAFE_componentWillReceiveProps
                       (mkProps [Some fileA, Some fileB, Some fileC] None)
                       (mkProps [Some fileA, Some fileC] None)
                       (mkState [Some fileA, Some fileB, Some fileC] (Some 2)
                          [''A'' \<mapsto> True, ''B'' \<mapsto> True]))) = 1"
proof -
  let ?old = "mkProps [Some fileA, Some fileB, Some fileC] None"
  let ?next = "mkProps [Some fileA, Some fileC] None"
  let ?st = "mkState [Some fileA, Some fileB, Some fileC] (Some 2) [''A'' \<mapsto> True, ''B'' \<mapsto> True]"
  let ?res = "UNSAFE_componentWillReceiveProps ?old ?next ?st"
  have h1: "selectionStatus ?old ?next = NeedsCleaning"
    by (simp add: selectionStatus_def shallowEqualArrays_def example_defs)
  have h2: "?res = (fst ?res, snd ?res)" by simp
  have fs: "files ?next = [Some fileA, Some fileC]" and cb: "onSelectionChange ?next"
    and old: "selection ?st = [''A'' \<mapsto> True, ''B'' \<mapsto> True]"
    and anchor: "previousSelectionIndex ?st = Some 2"
    by (simp_all add: example_defs)
  have inA: "\<exists>f. Some f \<in> set [Some fileA, Some fileC] \<and> id' f = ''A'' \<and> selectable f \<noteq> Some False"
    by (rule exI[of _ fileA]) (simp add: example_defs)
  have notB: "\<not> (\<exists>f. Some f \<in> set [Some fileA, Some fileC] \<and> id' f = ''B'' \<and> selectable f \<noteq> Some False)"
    by (auto simp: example_defs)
  have cl: "clampIndex 2 [Some fileA, Some fileC] = Some 1"
    by (simp add: clampIndex_def)
  show ?thesis
    using cleaning_prunes_selection [OF h1 h2] h1 inA notB cl
    unfolding fs old anchor
    by (simp add: selected_def cb)
qed

text \<open>
  Two folder chains that \<open>shallowEqualArrays\<close> takes for equal end in the same
  folder, so a change of the current folder is always seen as a change of the chain.
\<close>

lemma strictEq_refl: "strictEq a a"
  by (simp add: strictEq_def split: option.splits)

lemma shallowEqualArrays_last:
  assumes "shallowEqualArrays a b"
  shows "strictEq (getNonNil a (- 1)) (getNonNil b (- 1))"
proof (cases a)
  case None
  with assms show ?thesis by (simp add: shallowEqualArrays_def getNonNil_def strictEq_def)
next
  case (Some xs)
  with assms obtain ys where b: "b = Some ys" and len: "length xs = length ys"
    and all: "list_all2 strictEq xs ys"
    by (auto simp: shallowEqualArrays_def split: option.splits)
  show ?thesis
  proof (cases "xs = []")
    case True
    with len Some b show ?thesis by (simp add: getNonNil_def at_def strictEq_def)
  next
    case False
    then have pos: "length xs - 1 < length xs" by (cases xs) auto
    have "strictEq (xs ! (length xs - 1)) (ys ! (length xs - 1))"
      using all pos by (rule list_all2_nthD)
    moreover have "nat (int (length ys) - 1) = length ys - 1" by simp
    ultimately show ?thesis
      using Some b len False by (auto simp: getNonNil_def at_def)
  qed
qed

lemma terminal_change_needs_resetting:
  assumes "\<not> strictEq (getNonNil (propFolderChain nextProps) (- 1))
                      (getNonNil (propFolderChain old) (- 1))"
  shows "selectionStatus old nextProps = NeedsResetting"
proof -
  have "\<not> shallowEqualArrays (propFolderChain nextProps) (propFolderChain old)"
    using assms shallowEqualArrays_last by blast
  with assms show ?thesis by (simp add: selectionStatus_def Let_def)
qed

text \<open>
  C6 (reset on navigation). When a property update changes the identity of the last
  non-nil folder of the folder chain, the selection becomes empty, the anchor becomes
  undefined, and the selection-change callback, when the host supplies it, is called
  exactly once, with the empty selection.
\<close>

theorem navigation_resets_selection:
  assumes "\<not> strictEq (getNonNil (propFolderChain nextProps) (- 1))
                      (getNonNil (propFolderChain old) (- 1))"
      and "UNSAFE_componentWillReceiveProps old nextProps st = (st', effects)"
  shows "selection st' = Map.empty
         \<and> previousSelectionIndex st' = None
         \<and> (onSelectionChange nextProps \<longrightarrow> effects = [SelectionChange Map.empty])
         \<and> (\<not> onSelectionChange nextProps \<longrightarrow> effects = [])"
proof -
  have "selectionStatus old nextProps = NeedsResetting"
    using assms(1) by (rule terminal_change_needs_resetting)
  then obtain mid where "UNSAFE_componentWillReceiveProps old nextProps st = reset_update nextProps mid"
    by (simp add: UNSAFE_componentWillReceiveProps_def Let_def)
  with assms(2) show ?thesis by (auto simp: reset_update_def)
qed

theorem navigation_resets_selection_witness:
  "\<not> strictEq (getNonNil (propFolderChain (mkProps [Some fileA] (Some [Some folderRoot, Some folderPics]))) (- 1))
               (getNonNil (propFolderChain (mkProps [Some fileA] (Some [Some folderRoot, Some folderDocs]))) (- 1))
   \<and> UNSAFE_componentWillReceiveProps
        (mkProps [Some fileA] (Some [Some folderRoot, Some folderDocs]))
        (mkProps [Some fileA] (Some [Some folderRoot, Some folderPics]))
        (mkState [Some fileA] (Some 0) [''A'' \<mapsto> True])
      = (fst (UNSAFE_componentWillReceiveProps
               (mkProps [Some fileA] (Some [Some folderRoot, Some folderDocs]))
               (mkProps [Some fileA] (Some [Some folderRoot, Some folderPics]))
               (mkState [Some fileA] (Some 0) [''A'' \<mapsto> True])),
         [SelectionChange Map.empty])
   \<and> selection (fst (UNSAFE_componentWillReceiveProps
               (mkProps [Some fileA] (Some [Some folderRoot, Some folderDocs]))
               (mkProps [Some fileA] (Some [Some folderRoot, Some folderPics]))
               (mkState [Some fileA] (Some 0) [''A'' \<mapsto> True]))) = Map.empty
   \<and> previousSelectionIndex (fst (UNSAFE_componentWillReceiveProps
               (mkProps [Some fileA] (Some [Some folderRoot, Some folderDocs]))
               (mkProps [Some fileA] (Some [Some folderRoot, Some folderPics]))
               (mkState [Some fileA] (Some 0) [''A'' \<mapsto> True]))) = None"
proof -
  let ?old = "mkProps [Some fileA] (Some [Some folderRoot, Some folderDocs])"
  let ?next = "mkProps [Some fileA] (Some [Some folderRoot, Some folderPics])"
  let ?st = "mkState [Some fileA] (Some 0) [''A'' \<mapsto> True]"
  let ?res = "UNSAFE_componentWillReceiveProps ?old ?next ?st"
  have h1: "\<not> strictEq (getNonNil (propFolderChain ?next) (- 1)) (getNonNil (propFolderChain ?old) (- 1))"
    by (simp add: example_defs folder_defs getNonNil_def at_def strictEq_def)
  have h2: "?res = (fst ?res, snd ?res)" by simp
  have cb: "onSelectionChange ?next" by (simp add: example_defs)
  from navigation_resets_selection [OF h1 h2] cb
  have "selection (fst ?res) = Map.empty" "previousSelectionIndex (fst ?res) = None"
    "snd ?res = [SelectionChange Map.empty]" by simp_all
  with h1 show ?thesis by (simp add: prod_eq_iff)
qed

section \<open>Properties of re-sorting\<close>

text \<open>On option objects \<open>shallowEqualObjects\<close> is equality of their contents.\<close>

lemma shallowEqualObjects_iff: "shallowEqualObjects a b \<longleftrightarrow> a = b"
proof
  assume eq: "shallowEqualObjects a b"
  show "a = b"
  proof (rule ext)
    fix key
    show "a key = b key"
      using eq by (cases key) (simp_all add: shallowEqualObjects_def)
  qed
next
  assume "a = b"
  then show "shallowEqualObjects a b" by (simp add: shallowEqualObjects_def)
qed

text \<open>
  C9 (re-sorting is never skipped). For every update, from any previous state to any
  next one: when the raw file list has changed (the two lists are not shallow-equal), or
  the options, the sort property or the sort order have, \<open>componentDidUpdate\<close> sets
  the sorted list and the index map to what the sort engine returns for the current
  inputs. The selection status is no input of this step; the example after it is an
  update whose status is \<open>Ok\<close> and which re-sorts.
\<close>

theorem resort_on_any_change:
  assumes "\<not> shallowEqualArrays (Some (rawFiles st)) (Some (rawFiles prevState))
           \<or> options st \<noteq> options prevState
           \<or> sortProperty st \<noteq> sortProperty prevState
           \<or> sortOrder st \<noteq> sortOrder prevState"
  shows "sortedFiles (componentDidUpdate sortFiles prevState st)
           = fst (sortFiles (rawFiles st) (options st) (sortProperty st) (sortOrder st))
         \<and> fileIndexMap (componentDidUpdate sortFiles prevState st)
           = snd (sortFiles (rawFiles st) (options st) (sortProperty st) (sortOrder st))"
proof -
  have "needToResort prevState st"
    using assms by (auto simp: needToResort_def shallowEqualObjects_iff)
  then show ?thesis
    by (simp add: componentDidUpdate_def split: prod.splits)
qed

theorem resort_on_any_change_witness:
  "selectionStatus (mkProps [Some fileA, Some fileB] None)
                   ((mkProps [Some fileA, Some fileB] None)\<lparr>propSortOrder := Some Desc\<rparr>) = Ok
   \<and> sortOrder (fst (UNSAFE_componentWillReceiveProps
                       (mkProps [Some fileA, Some fileB] None)
                       ((mkProps [Some fileA, Some fileB] None)\<lparr>propSortOrder := Some Desc\<rparr>)
                       (mkState [Some fileA, Some fileB] None Map.empty)))
       \<noteq> sortOrder (mkState [Some fileA, Some fileB] None Map.empty)
   \<and> sortedFiles (componentDidUpdate sortReversed
                     (mkState [Some fileA, Some fileB] None Map.empty)
                     (fst (UNSAFE_componentWillReceiveProps
                       (mkProps [Some fileA, Some fileB] None)
                       ((mkProps [Some fileA, Some fileB] None)\<lparr>propSortOrder := Some Desc\<rparr>)
                       (mkState [Some fileA, Some fileB] None Map.empty))))
       = [Some fileB, Some fileA]"
proof -
  let ?old = "mkProps [Some fileA, Some fileB] None"
  let ?next = "?old\<lparr>propSortOrder := Some Desc\<rparr>"
  let ?st0 = "mkState [Some fileA, Some fileB] None Map.empty"
  let ?st1 = "fst (UNSAFE_componentWillReceiveProps ?old ?next ?st0)"
  have ok: "selectionStatus ?old ?next = Ok"
    by (simp add: selectionStatus_def shallowEqualArrays_def strictEq_def example_defs)
  have st1: "?st1 = ?st0\<lparr>sortOrder := Desc\<rparr>"
    by (simp add: UNSAFE_componentWillReceiveProps_def Let_def ok)
       (simp add: shallowEqualArrays_def strictEq_def example_defs)
  have h: "sortOrder ?st1 \<noteq> sortOrder ?st0"
    unfolding st1 by (simp add: example_defs)
  have ch: "\<not> shallowEqualArrays (Some (rawFiles ?st1)) (Some (rawFiles ?st0))
           \<or> options ?st1 \<noteq> options ?st0
           \<or> sortProperty ?st1 \<noteq> sortProperty ?st0
           \<or> sortOrder ?st1 \<noteq> sortOrder ?st0"
    using h by blast
  have val: "fst (sortReversed (rawFiles ?st1) (options ?st1) (sortProperty ?st1) (sortOrder ?st1))
               = [Some fileB, Some fileA]"
    unfolding st1 by (simp add: sortReversed_def example_defs)
  show ?thesis
    using resort_on_any_change [OF ch, of sortReversed] ok h val by simp
qed

text \<open>
  C10 (activating a sort property). With a property other than the current one,
  \<open>activateSortProperty\<close> sets the property and makes the order ascending; with the
  current property it keeps the property and flips the order, so that two calls in a row
  give the order back.
\<close>

theorem activateSortProperty_sets_or_flips:
  "(sortProperty st \<noteq> nm \<longrightarrow>
      sortProperty (activateSortProperty nm st) = nm
      \<and> sortOrder (activateSortProperty nm st) = Asc)
   \<and> (sortProperty st = nm \<longrightarrow>
      sortProperty (activateSortProperty nm st) = nm
      \<and> sortOrder (activateSortProperty nm st) = (if sortOrder st = Asc then Desc else Asc)
      \<and> sortOrder (activateSortProperty nm st) \<noteq> sortOrder st
      \<and> sortOrder (activateSortProperty nm (activateSortProperty nm st)) = sortOrder st)"
  by (cases "sortOrder st") (auto simp: activateSortProperty_def)

theorem activateSortProperty_sets_or_flips_witness:
  "sortProperty (mkState [] None Map.empty) \<noteq> Size
   \<and> sortProperty (activateSortProperty Size (mkState [] None Map.empty)) = Size
   \<and> sortOrder (activateSortProperty Size (mkState [] None Map.empty)) = Asc
   \<and> sortProperty (mkState [] None Map.empty) = Name
   \<and> sortOrder (activateSortProperty Name (mkState [] None Map.empty)) = Desc
   \<and> sortOrder (activateSortProperty Name (activateSortProperty Name (mkState [] None Map.empty)))
       = Asc"
proof -
  let ?st = "mkState [] None Map.empty"
  have h1: "sortProperty ?st \<noteq> Size" and h2: "sortProperty ?st = Name"
    and o: "sortOrder ?st = Asc"
    by (simp_all add: example_defs)
  show ?thesis
    using activateSortProperty_sets_or_flips [of ?st Size]
          activateSortProperty_sets_or_flips [of ?st Name] h1 h2 o
    by simp
qed

section \<open>Properties of the keyboard handler\<close>

text \<open>Index \<open>-2\<close> of a folder chain is its second-to-last element, if there is one.\<close>

lemma getNonNil_parent: "getNonNil (Some (xs @ [parent, current])) (- 2) = parent"
  by (simp add: getNonNil_def at_def nth_append)

lemma getNonNil_no_parent: "getNonNil (Some [current]) (- 2) = None" "getNonNil None (- 2) = None"
  by (simp_all add: getNonNil_def at_def)

text \<open>
  C8 (keyboard back-navigation). On a backspace key event the state never changes. When
  the folder chain has a non-null parent folder that is not marked
  \<open>openable === false\<close>, \<open>onFileOpen\<close> (when the host supplies it) is called with
  that folder. When there is no parent, or the parent is not openable, nothing happens
  beyond \<open>preventDefault\<close> on the key event: no callback is called.
\<close>

theorem backspace_opens_parent:
  assumes "isBackspace event"
  shows "fst (handleKeyPress thisInstanceId props event activeElem st) = st
         \<and> (\<forall>parentFolder.
               getNonNil (propFolderChain props) (- 2) = Some parentFolder
               \<and> openable parentFolder \<noteq> Some False \<and> onFileOpen props
               \<longrightarrow> snd (handleKeyPress thisInstanceId props event activeElem st)
                     = [PreventDefault, FileOpen parentFolder])
         \<and> (getNonNil (propFolderChain props) (- 2) = None
              \<or> (\<exists>parentFolder. getNonNil (propFolderChain props) (- 2) = Some parentFolder
                                 \<and> openable parentFolder = Some False)
            \<longrightarrow> snd (handleKeyPress thisInstanceId props event activeElem st) = [PreventDefault])"
  using assms by (auto simp: handleKeyPress_def split: option.splits)

theorem backspace_opens_parent_witness:
  "isBackspace backspaceKey
   \<and> handleKeyPress ''fb1'' (mkProps [Some fileA] (Some [Some folderRoot, Some folderDocs]))
        backspaceKey None
        (mkState [Some fileA] None Map.empty)
      = (mkState [Some fileA] None Map.empty, [PreventDefault, FileOpen folderRoot])
   \<and> handleKeyPress ''fb1'' (mkProps [Some fileA] (Some [Some folderRoot]))
        backspaceKey None
        (mkState [Some fileA] None Map.empty)
      = (mkState [Some fileA] None Map.empty, [PreventDefault])
   \<and> handleKeyPress ''fb1'' (mkProps [Some fileA] (Some [Some folderVault, Some folderDocs]))
        backspaceKey None
        (mkState [Some fileA] None Map.empty)
      = (mkState [Some fileA] None Map.empty, [PreventDefault])"
proof -
  let ?ev = "backspaceKey"
  let ?st = "mkState [Some fileA] None Map.empty"
  let ?p1 = "mkProps [Some fileA] (Some [Some folderRoot, Some folderDocs])"
  let ?p2 = "mkProps [Some fileA] (Some [Some folderRoot])"
  let ?p3 = "mkProps [Some fileA] (Some [Some folderVault, Some folderDocs])"
  have h: "isBackspace ?ev" by (simp add: backspaceKey_def)
  have g1: "getNonNil (propFolderChain ?p1) (- 2) = Some folderRoot"
    "openable folderRoot \<noteq> Some False" "onFileOpen ?p1"
    by (simp_all add: example_defs folder_defs getNonNil_def at_def)
  have g2: "getNonNil (propFolderChain ?p2) (- 2) = None"
    by (simp add: example_defs getNonNil_def at_def)
  have g3: "getNonNil (propFolderChain ?p3) (- 2) = Some folderVault"
    "openable folderVault = Some False"
    by (simp_all add: example_defs folder_defs getNonNil_def at_def)
  have r1: "handleKeyPress ''fb1'' ?p1 ?ev None ?st = (?st, [PreventDefault, FileOpen folderRoot])"
    using backspace_opens_parent [OF h, of "''fb1''" ?p1 None ?st] g1
    by (simp add: prod_eq_iff)
  have r2: "handleKeyPress ''fb1'' ?p2 ?ev None ?st = (?st, [PreventDefault])"
    using backspace_opens_parent [OF h, of "''fb1''" ?p2 None ?st] g2
    by (simp add: prod_eq_iff)
  have r3: "handleKeyPress ''fb1'' ?p3 ?ev None ?st = (?st, [PreventDefault])"
    using backspace_opens_parent [OF h, of "''fb1''" ?p3 None ?st] g3
    by (simp add: prod_eq_iff)
  show ?thesis using h r1 r2 r3 by simp
qed

text \<open>The selection toggle calls no click handler, and the click handlers pass their event on.\<close>

lemma toggle_effects:
  "snd (handleSelectionToggle props file i type st) = []
   \<or> (\<exists>sel. snd (handleSelectionToggle props file i type st) = [SelectionChange sel])"
  by (simp add: handleSelectionToggle_def toggle_update_def Let_def)

lemma single_click_events:
  assumes "handleFileSingleClick props file i ev kb st = (st', effects)"
      and "FileSingleClick f j e k \<in> set effects \<or> FileDoubleClick f j e k \<in> set effects"
  shows "e = ev \<and> k = kb"
proof -
  let ?type = "if shiftKey ev then Range else if ctrlKey ev then Multiple else Single"
  let ?called = "case onFileSingleClick props of
                   None \<Rightarrow> []
                 | Some handler \<Rightarrow> [FileSingleClick file i ev kb]"
  have "effects = ?called \<or> effects = ?called @ snd (handleSelectionToggle props file i ?type st)"
    using assms(1)
    by (auto simp: handleFileSingleClick_def Let_def split: if_splits prod.splits)
  moreover have "FileSingleClick f j e k \<in> set ?called \<or> FileDoubleClick f j e k \<in> set ?called
                 \<Longrightarrow> e = ev \<and> k = kb"
    by (auto split: option.splits)
  moreover have "FileSingleClick f j e k \<notin> set (snd (handleSelectionToggle props file i ?type st))"
    "FileDoubleClick f j e k \<notin> set (snd (handleSelectionToggle props file i ?type st))"
    using toggle_effects [of props "file" i ?type st] by auto
  ultimately show ?thesis using assms(2) by auto
qed

lemma double_click_events:
  assumes "handleFileDoubleClick props file i ev kb st = (st', effects)"
      and "FileSingleClick f j e k \<in> set effects \<or> FileDoubleClick f j e k \<in> set effects"
  shows "e = ev \<and> k = kb"
  using assms
  by (auto simp: handleFileDoubleClick_def Let_def split: option.splits if_splits)

lemma ctrl_click_is_multiple:
  assumes "ctrlKey ev" and "\<not> shiftKey ev"
      and "\<forall>handler. onFileSingleClick props = Some handler \<longrightarrow> handler file i ev kb \<noteq> Some True"
  shows "handleFileSingleClick props file i ev kb st =
           (fst (handleSelectionToggle props file i Multiple st),
            (case onFileSingleClick props of
               None \<Rightarrow> []
             | Some handler \<Rightarrow> [FileSingleClick file i ev kb])
            @ snd (handleSelectionToggle props file i Multiple st))"
  using assms
  by (auto simp: handleFileSingleClick_def Let_def split: option.splits prod.splits)

lemma key_on_focused_file:
  assumes "\<not> isBackspace event"
      and "activeElem = Some el"
      and "data_chonky_instance_id el = Some thisInstanceId"
      and "data_chonky_file_id el = Some fid"
      and "fileIndexMap st fid = Some displayIndex"
      and "at (sortedFiles st) displayIndex = Some file"
  shows "handleKeyPress thisInstanceId props event activeElem st =
           (if isSpace event then
              (fst (handleFileSingleClick props file displayIndex
                      \<lparr>ctrlKey = True, shiftKey = False\<rparr> True st),
               PreventDefault # snd (handleFileSingleClick props file displayIndex
                      \<lparr>ctrlKey = True, shiftKey = False\<rparr> True st))
            else if isEnter event then
              (fst (handleFileDoubleClick props file displayIndex
                      \<lparr>ctrlKey = True, shiftKey = False\<rparr> True st),
               PreventDefault # snd (handleFileDoubleClick props file displayIndex
                      \<lparr>ctrlKey = True, shiftKey = False\<rparr> True st))
            else (st, []))"
proof -
  have range: "\<not> (displayIndex < 0 \<or> displayIndex \<ge> int (length (sortedFiles st)))"
    using assms(6) by (auto simp: at_def split: if_splits)
  show ?thesis
    using assms range
    by (simp add: handleKeyPress_def Let_def split: prod.splits)
qed

text \<open>
  A double click calls the host's handler, when there is one, and then opens the file,
  unless the handler prevents the default, the host supplies no \<open>onFileOpen\<close> or
  the file is not openable. It never changes the state.
\<close>

lemma double_click_result:
  "handleFileDoubleClick props target i ev kb st =
     (st,
      (case onFileDoubleClick props of
         None \<Rightarrow> []
       | Some handler \<Rightarrow> [FileDoubleClick target i ev kb])
      @ (if (\<forall>handler. onFileDoubleClick props = Some handler \<longrightarrow>
                 handler target i ev kb \<noteq> Some True)
            \<and> onFileOpen props \<and> openable target \<noteq> Some False
         then [FileOpen target] else []))"
  by (auto simp: handleFileDoubleClick_def Let_def split: option.splits)

lemma prevented_single_click:
  assumes "onFileSingleClick props = Some handler"
      and "handler target i ev kb = Some True"
  shows "handleFileSingleClick props target i ev kb st = (st, [FileSingleClick target i ev kb])"
  using assms by (simp add: handleFileSingleClick_def Let_def)

lemma key_press_click_events:
  assumes "handleKeyPress thisInstanceId props event activeElem st = (st', effects)"
      and "FileSingleClick f j e k \<in> set effects \<or> FileDoubleClick f j e k \<in> set effects"
  shows "ctrlKey e \<and> \<not> shiftKey e \<and> k"
proof -
  have "e = \<lparr>ctrlKey = True, shiftKey = False\<rparr> \<and> k = True"
    using assms
    by (auto simp: handleKeyPress_def Let_def
          split: if_splits option.splits prod.splits
          dest: single_click_events double_click_events)
  then show ?thesis by simp
qed

text \<open>
  C7 (keyboard activation is a ctrl-click). Every click event that a key press hands to a
  click handler of the host, single or double, has \<open>ctrlKey = true\<close> and
  \<open>shiftKey = false\<close>, and is marked as coming from the keyboard. On a file of this
  instance that has the focus:
  \<^item> a space calls the host's single-click handler, when there is one, with that event,
    and then, unless the handler prevents the default, does what the selection toggle
    does in \<open>Multiple\<close> mode; when the handler prevents the default nothing else
    happens;
  \<^item> an enter calls the host's double-click handler, when there is one, with that same
    event, leaves the state as it is, and then opens the file, unless the handler
    prevents the default, there is no \<open>onFileOpen\<close> or the file is not openable.
\<close>

theorem keyboard_activation_is_ctrl_click:
  assumes "handleKeyPress thisInstanceId props event activeElem st = (st', effects)"
  shows "(\<forall>f j e k. FileSingleClick f j e k \<in> set effects \<or> FileDoubleClick f j e k \<in> set effects
            \<longrightarrow> ctrlKey e \<and> \<not> shiftKey e \<and> k)
         \<and> (\<forall>el fid displayIndex target.
               \<not> isBackspace event \<and> isSpace event
               \<and> activeElem = Some el
               \<and> data_chonky_instance_id el = Some thisInstanceId
               \<and> data_chonky_file_id el = Some fid
               \<and> fileIndexMap st fid = Some displayIndex
               \<and> at (sortedFiles st) displayIndex = Some target
               \<and> (\<forall>handler. onFileSingleClick props = Some handler \<longrightarrow>
                     handler target displayIndex \<lparr>ctrlKey = True, shiftKey = False\<rparr> True
                       \<noteq> Some True)
               \<longrightarrow> st' = fst (handleSelectionToggle props target displayIndex Multiple st)
                   \<and> effects =
                       PreventDefault
                       # (case onFileSingleClick props of
                            None \<Rightarrow> []
                          | Some handler \<Rightarrow>
                              [FileSingleClick target displayIndex
                                 \<lparr>ctrlKey = True, shiftKey = False\<rparr> True])
                       @ snd (handleSelectionToggle props target displayIndex Multiple st))
         \<and> (\<forall>el fid displayIndex target handler.
               \<not> isBackspace event \<and> isSpace event
               \<and> activeElem = Some el
               \<and> data_chonky_instance_id el = Some thisInstanceId
               \<and> data_chonky_file_id el = Some fid
               \<and> fileIndexMap st fid = Some displayIndex
               \<and> at (sortedFiles st) displayIndex = Some target
               \<and> onFileSingleClick props = Some handler
               \<and> handler target displayIndex \<lparr>ctrlKey = True, shiftKey = False\<rparr> True
                    = Some True
               \<longrightarrow> st' = st
                   \<and> effects =
                       [PreventDefault,
                        FileSingleClick target displayIndex
                          \<lparr>ctrlKey = True, shiftKey = False\<rparr> True])
         \<and> (\<forall>el fid displayIndex target.
               \<not> isBackspace event \<and> \<not> isSpace event \<and> isEnter event
               \<and> activeElem = Some el
               \<and> data_chonky_instance_id el = Some thisInstanceId
               \<and> data_chonky_file_id el = Some fid
               \<and> fileIndexMap st fid = Some displayIndex
               \<and> at (sortedFiles st) displayIndex = Some target
               \<longrightarrow> st' = st
                   \<and> effects =
                       PreventDefault
                       # (case onFileDoubleClick props of
                            None \<Rightarrow> []
                          | Some handler \<Rightarrow>
                              [FileDoubleClick target displayIndex
                                 \<lparr>ctrlKey = True, shiftKey = False\<rparr> True])
                       @ (if (\<forall>handler. onFileDoubleClick props = Some handler \<longrightarrow>
                                 handler target displayIndex
                                   \<lparr>ctrlKey = True, shiftKey = False\<rparr> True \<noteq> Some True)
                             \<and> onFileOpen props \<and> openable target \<noteq> Some False
                          then [FileOpen target] else []))"
proof (intro conjI allI impI)
  fix f j e k
  assume "FileSingleClick f j e k \<in> set effects \<or> FileDoubleClick f j e k \<in> set effects"
  with assms have "ctrlKey e \<and> \<not> shiftKey e \<and> k" by (rule key_press_click_events)
  then show "ctrlKey e" "\<not> shiftKey e" "k" by simp_all
next
  fix el fid displayIndex target
  assume a: "\<not> isBackspace event \<and> isSpace event
               \<and> activeElem = Some el
               \<and> data_chonky_instance_id el = Some thisInstanceId
               \<and> data_chonky_file_id el = Some fid
               \<and> fileIndexMap st fid = Some displayIndex
               \<and> at (sortedFiles st) displayIndex = Some target
               \<and> (\<forall>handler. onFileSingleClick props = Some handler \<longrightarrow>
                     handler target displayIndex \<lparr>ctrlKey = True, shiftKey = False\<rparr> True
                       \<noteq> Some True)"
  have k: "handleKeyPress thisInstanceId props event activeElem st =
             (fst (handleFileSingleClick props target displayIndex
                      \<lparr>ctrlKey = True, shiftKey = False\<rparr> True st),
               PreventDefault # snd (handleFileSingleClick props target displayIndex
                      \<lparr>ctrlKey = True, shiftKey = False\<rparr> True st))"
    using a key_on_focused_file [of event activeElem el thisInstanceId fid st displayIndex target props]
    by simp
  have c: "handleFileSingleClick props target displayIndex \<lparr>ctrlKey = True, shiftKey = False\<rparr> True st =
           (fst (handleSelectionToggle props target displayIndex Multiple st),
            (case onFileSingleClick props of
               None \<Rightarrow> []
             | Some handler \<Rightarrow> [FileSingleClick target displayIndex \<lparr>ctrlKey = True, shiftKey = False\<rparr> True])
            @ snd (handleSelectionToggle props target displayIndex Multiple st))"
    using a by (intro ctrl_click_is_multiple) simp_all
  show "st' = fst (handleSelectionToggle props target displayIndex Multiple st)"
    using assms k c by simp
  show "effects =
          PreventDefault
          # (case onFileSingleClick props of
               None \<Rightarrow> []
             | Some handler \<Rightarrow>
                 [FileSingleClick target displayIndex \<lparr>ctrlKey = True, shiftKey = False\<rparr> True])
          @ snd (handleSelectionToggle props target displayIndex Multiple st)"
    using assms k c by simp
next
  fix el fid displayIndex target handler
  assume a: "\<not> isBackspace event \<and> isSpace event
               \<and> activeElem = Some el
               \<and> data_chonky_instance_id el = Some thisInstanceId
               \<and> data_chonky_file_id el = Some fid
               \<and> fileIndexMap st fid = Some displayIndex
               \<and> at (sortedFiles st) displayIndex = Some target
               \<and> onFileSingleClick props = Some handler
               \<and> handler target displayIndex \<lparr>ctrlKey = True, shiftKey = False\<rparr> True
                    = Some True"
  have k: "handleKeyPress thisInstanceId props event activeElem st =
             (fst (handleFileSingleClick props target displayIndex
                      \<lparr>ctrlKey = True, shiftKey = False\<rparr> True st),
               PreventDefault # snd (handleFileSingleClick props target displayIndex
                      \<lparr>ctrlKey = True, shiftKey = False\<rparr> True st))"
    using a key_on_focused_file [of event activeElem el thisInstanceId fid st displayIndex target props]
    by simp
  have c: "handleFileSingleClick props target displayIndex \<lparr>ctrlKey = True, shiftKey = False\<rparr> True st
             = (st, [FileSingleClick target displayIndex \<lparr>ctrlKey = True, shiftKey = False\<rparr> True])"
    using a by (intro prevented_single_click [of props handler]) simp_all
  show "st' = st" using assms k c by simp
  show "effects = [PreventDefault,
                   FileSingleClick target displayIndex \<lparr>ctrlKey = True, shiftKey = False\<rparr> True]"
    using assms k c by simp
next
  fix el fid displayIndex target
  assume a: "\<not> isBackspace event \<and> \<not> isSpace event \<and> isEnter event
               \<and> activeElem = Some el
               \<and> data_chonky_instance_id el = Some thisInstanceId
               \<and> data_chonky_file_id el = Some fid
               \<and> fileIndexMap st fid = Some displayIndex
               \<and> at (sortedFiles st) displayIndex = Some target"
  have k: "handleKeyPress thisInstanceId props event activeElem st =
             (fst (handleFileDoubleClick props target displayIndex
                      \<lparr>ctrlKey = True, shiftKey = False\<rparr> True st),
               PreventDefault # snd (handleFileDoubleClick props target displayIndex
                      \<lparr>ctrlKey = True, shiftKey = False\<rparr> True st))"
    using a key_on_focused_file [of event activeElem el thisInstanceId fid st displayIndex target props]
    by simp
  show "st' = st"
    using assms k by (simp add: double_click_result)
  show "effects =
          PreventDefault
          # (case onFileDoubleClick props of
               None \<Rightarrow> []
             | Some handler \<Rightarrow>
                 [FileDoubleClick target displayIndex \<lparr>ctrlKey = True, shiftKey = False\<rparr> True])
          @ (if (\<forall>handler. onFileDoubleClick props = Some handler \<longrightarrow>
                    handler target displayIndex \<lparr>ctrlKey = True, shiftKey = False\<rparr> True
                      \<noteq> Some True)
                \<and> onFileOpen props \<and> openable target \<noteq> Some False
             then [FileOpen target] else [])"
    using assms k by (simp add: double_click_result)
qed

theorem keyboard_activation_is_ctrl_click_witness:
  "selected (selection (fst (handleKeyPress ''fb1'' watchingProps spaceKey
                               (focusOn ''fb1'' ''B'') indexedState))) ''A''
   \<and> selected (selection (fst (handleKeyPress ''fb1'' watchingProps spaceKey
                               (focusOn ''fb1'' ''B'') indexedState))) ''B''
   \<and> snd (handleKeyPress ''fb1'' watchingProps spaceKey (focusOn ''fb1'' ''B'') indexedState)
       = [PreventDefault,
          FileSingleClick fileB 1 \<lparr>ctrlKey = True, shiftKey = False\<rparr> True,
          SelectionChange [''A'' \<mapsto> True, ''B'' \<mapsto> True]]
   \<and> handleKeyPress ''fb1'' watchingProps enterKey (focusOn ''fb1'' ''B'') indexedState
       = (indexedState,
          [PreventDefault,
           FileDoubleClick fileB 1 \<lparr>ctrlKey = True, shiftKey = False\<rparr> True,
           FileOpen fileB])"
proof -
  let ?res = "handleKeyPress ''fb1'' watchingProps spaceKey (focusOn ''fb1'' ''B'') indexedState"
  let ?ent = "handleKeyPress ''fb1'' watchingProps enterKey (focusOn ''fb1'' ''B'') indexedState"
  let ?el = "\<lparr>data_chonky_file_id = Some ''B'', data_chonky_instance_id = Some ''fb1''\<rparr>"
  let ?ev = "\<lparr>ctrlKey = True, shiftKey = False\<rparr>"
  have h: "?res = (fst ?res, snd ?res)" by simp
  have h': "?ent = (fst ?ent, snd ?ent)" by simp
  have focus: "\<not> isBackspace spaceKey \<and> isSpace spaceKey
               \<and> focusOn ''fb1'' ''B'' = Some ?el
               \<and> data_chonky_instance_id ?el = Some ''fb1''
               \<and> data_chonky_file_id ?el = Some ''B''
               \<and> fileIndexMap indexedState ''B'' = Some 1
               \<and> at (sortedFiles indexedState) 1 = Some fileB
               \<and> (\<forall>handler. onFileSingleClick watchingProps = Some handler \<longrightarrow>
                     handler fileB 1 ?ev True \<noteq> Some True)"
    by (simp add: key_defs example_defs at_def)
  have focus': "\<not> isBackspace enterKey \<and> \<not> isSpace enterKey \<and> isEnter enterKey
               \<and> focusOn ''fb1'' ''B'' = Some ?el
               \<and> data_chonky_instance_id ?el = Some ''fb1''
               \<and> data_chonky_file_id ?el = Some ''B''
               \<and> fileIndexMap indexedState ''B'' = Some 1
               \<and> at (sortedFiles indexedState) 1 = Some fileB"
    by (simp add: key_defs example_defs at_def)
  have toggle: "handleSelectionToggle watchingProps fileB 1 Multiple indexedState =
                  (indexedState\<lparr>selection := [''A'' \<mapsto> True, ''B'' \<mapsto> True],
                                 previousSelectionIndex := Some 1\<rparr>,
                   [SelectionChange [''A'' \<mapsto> True, ''B'' \<mapsto> True]])"
    by (simp add: handleSelectionToggle_def toggle_update_def Let_def key_defs example_defs)
  have handler: "onFileSingleClick watchingProps = Some (\<lambda>file displayIndex event keyboard. None)"
    "onFileDoubleClick watchingProps = Some (\<lambda>file displayIndex event keyboard. None)"
    by (simp_all add: key_defs example_defs)
  have opens: "(\<forall>handler. onFileDoubleClick watchingProps = Some handler \<longrightarrow>
                  handler fileB 1 ?ev True \<noteq> Some True)
               \<and> onFileOpen watchingProps \<and> openable fileB \<noteq> Some False"
    by (simp add: key_defs example_defs)
  from keyboard_activation_is_ctrl_click [OF h]
  have space: "fst ?res = fst (handleSelectionToggle watchingProps fileB 1 Multiple indexedState)
        \<and> snd ?res =
            PreventDefault
            # (case onFileSingleClick watchingProps of
                 None \<Rightarrow> []
               | Some handler \<Rightarrow> [FileSingleClick fileB 1 ?ev True])
            @ snd (handleSelectionToggle watchingProps fileB 1 Multiple indexedState)"
    using focus by blast
  from keyboard_activation_is_ctrl_click [OF h']
  have "fst ?ent = indexedState
        \<and> snd ?ent =
            PreventDefault
            # (case onFileDoubleClick watchingProps of
                 None \<Rightarrow> []
               | Some handler \<Rightarrow> [FileDoubleClick fileB 1 ?ev True])
            @ (if (\<forall>handler. onFileDoubleClick watchingProps = Some handler \<longrightarrow>
                      handler fileB 1 ?ev True \<noteq> Some True)
                  \<and> onFileOpen watchingProps \<and> openable fileB \<noteq> Some False
               then [FileOpen fileB] else [])"
    using focus' by blast
  then have enter: "fst ?ent = indexedState"
    "snd ?ent = [PreventDefault, FileDoubleClick fileB 1 ?ev True, FileOpen fileB]"
    using opens unfolding handler by simp_all
  have "?ent = (indexedState, [PreventDefault, FileDoubleClick fileB 1 ?ev True, FileOpen fileB])"
    using enter by (simp add: prod_eq_iff)
  with space show ?thesis
    unfolding toggle handler by (simp add: selected_def)
qed

end
